theory Spec2Isabelle
  imports Main
begin

section \<open>Data model of \<^verbatim>\<open>app/main.py\<close>\<close>

text \<open>
  The application is one module: a SQLAlchemy table \<^verbatim>\<open>tasks\<close>, three Pydantic schemas
  and five route handlers. The handlers are embedded as functions over an explicit
  database state; the clock read by the column default \<^verbatim>\<open>datetime.utcnow\<close> is an
  argument of the insert. A timestamp is an integer (microseconds since the epoch).
\<close>

type_synonym datetime = int

text \<open>
  \<^verbatim>\<open>class Task(Base)\<close>: a row of the table. \<^verbatim>\<open>id\<close> is the primary key. The columns
  \<^verbatim>\<open>title\<close>, \<^verbatim>\<open>description\<close> and \<^verbatim>\<open>completed\<close> are declared without
  \<^verbatim>\<open>nullable=False\<close>, so each of them can hold NULL (\<open>None\<close>). \<^verbatim>\<open>created_at\<close> is filled
  by its default on insert and no handler writes it afterwards.
\<close>

record Task =
  task_id :: int
  task_title :: "string option"
  task_description :: "string option"
  task_completed :: "bool option"
  task_created_at :: datetime

text \<open>\<^verbatim>\<open>class TaskCreate(BaseModel)\<close>: \<^verbatim>\<open>title: str\<close>, \<^verbatim>\<open>description: Optional[str] = None\<close>.\<close>

record TaskCreate =
  create_title :: string
  create_description :: "string option"

text \<open>
  \<^verbatim>\<open>class TaskUpdate(BaseModel)\<close>: every field is \<^verbatim>\<open>Optional[...] = None\<close>. Pydantic
  remembers which fields the request body supplied (the set \<^verbatim>\<open>model_fields_set\<close> that
  \<^verbatim>\<open>dict(exclude_unset=True)\<close> consults), so a field is in one of three states: left out
  of the body (\<open>Unset\<close>), supplied as \<^verbatim>\<open>null\<close> (\<open>Provided None\<close>), or supplied with a
  value (\<open>Provided (Some v)\<close>).
\<close>

datatype 'a field = Unset | Provided 'a

record TaskUpdate =
  update_title :: "string option field"
  update_description :: "string option field"
  update_completed :: "bool option field"

text \<open>
  \<^verbatim>\<open>class TaskResponse(BaseModel)\<close>: \<^verbatim>\<open>id: int\<close>, \<^verbatim>\<open>title: str\<close>,
  \<^verbatim>\<open>description: Optional[str]\<close>, \<^verbatim>\<open>completed: bool\<close>, \<^verbatim>\<open>created_at: datetime\<close>. No field
  has a default, so all five are required; only \<^verbatim>\<open>description\<close> admits \<^verbatim>\<open>None\<close>.
\<close>

record TaskResponse =
  response_id :: int
  response_title :: string
  response_description :: "string option"
  response_completed :: bool
  response_created_at :: datetime

text \<open>
  The database: the rows of \<^verbatim>\<open>tasks\<close> in the order a query without \<^verbatim>\<open>ORDER BY\<close>
  yields them. For the default engine (SQLite, \<^verbatim>\<open>sqlite:///./test.db\<close>) that is the
  order of the integer primary key, which is also the order of insertion because a new
  key is larger than every key in the table.
\<close>

record database =
  tasks :: "Task list"

section \<open>Storage operations issued by the handlers\<close>

text \<open>
  A Python integer that a handler passes to a query is bound as an SQLite INTEGER, a
  signed 64-bit value. The driver refuses any other integer with \<^verbatim>\<open>OverflowError\<close>
  before the statement runs.
\<close>

datatype py_error = OverflowError

definition sqlite_integer :: "int \<Rightarrow> bool" where
  "sqlite_integer n \<longleftrightarrow> - 9223372036854775808 \<le> n \<and> n \<le> 9223372036854775807"

text \<open>\<^verbatim>\<open>db.query(Task).filter(Task.id == task_id).first()\<close>\<close>

definition query_first :: "int \<Rightarrow> database \<Rightarrow> py_error + Task option" where
  "query_first tid db =
     (if sqlite_integer tid then Inr (find (\<lambda>t. task_id t = tid) (tasks db))
      else Inl OverflowError)"

text \<open>
  The key of an inserted row. \<^verbatim>\<open>Column(Integer, primary_key=True)\<close> leaves the choice
  to the engine; SQLite uses 1 for an empty table and otherwise one more than the
  largest key in the table. (The engine's behaviour at the largest 64-bit key is outside
  the model: keys are unbounded integers.)
\<close>

fun next_rowid :: "Task list \<Rightarrow> int" where
  "next_rowid [] = 1"
| "next_rowid (t # ts) = fold max (map task_id ts) (task_id t) + 1"

text \<open>
  \<^verbatim>\<open>.offset(skip).limit(limit).all()\<close>, that is \<^verbatim>\<open>LIMIT limit OFFSET skip\<close>. SQLite
  reads a negative offset as zero and a negative limit as no limit. Both values are
  bound parameters of the statement.
\<close>

definition sql_offset :: "int \<Rightarrow> 'a list \<Rightarrow> py_error + 'a list" where
  "sql_offset skip xs =
     (if sqlite_integer skip then Inr (drop (nat skip) xs) else Inl OverflowError)"

definition sql_limit :: "int \<Rightarrow> 'a list \<Rightarrow> py_error + 'a list" where
  "sql_limit limit xs =
     (if sqlite_integer limit then Inr (if limit < 0 then xs else take (nat limit) xs)
      else Inl OverflowError)"

section \<open>Route handlers\<close>

text \<open>
  How a handler ends: it returns an ORM object or one of the two dictionary literals of
  the module, \<^verbatim>\<open>{"error": msg}\<close> and \<^verbatim>\<open>{"message": msg, "id": task_id}\<close>, or an
  exception of a query leaves it. No handler catches anything, and a query that raises
  has written nothing.
\<close>

datatype py_dict = ErrorDict string | DeletedDict string int

datatype handler_result = ReturnTask Task | ReturnDict py_dict | Raise py_error

text \<open>
  \<^verbatim>\<open>def get_tasks(skip: int = 0, limit: int = 10, db)\<close>. An omitted query parameter is
  \<open>None\<close> and takes the default of the signature.
\<close>

definition get_tasks :: "int option \<Rightarrow> int option \<Rightarrow> database \<Rightarrow> py_error + Task list" where
  "get_tasks skip limit db =
     (let skip' = (case skip of None \<Rightarrow> 0 | Some s \<Rightarrow> s);
          limit' = (case limit of None \<Rightarrow> 10 | Some l \<Rightarrow> l)
      in case sql_offset skip' (tasks db) of
           Inl e \<Rightarrow> Inl e
         | Inr rows \<Rightarrow> sql_limit limit' rows)"

text \<open>\<^verbatim>\<open>def get_task(task_id, db)\<close>\<close>

definition get_task :: "int \<Rightarrow> database \<Rightarrow> handler_result" where
  "get_task tid db =
     (case query_first tid db of
        Inl e \<Rightarrow> Raise e
      | Inr None \<Rightarrow> ReturnDict (ErrorDict ''Task not found'')
      | Inr (Some task) \<Rightarrow> ReturnTask task)"

text \<open>
  \<^verbatim>\<open>def create_task(task, db)\<close>. \<^verbatim>\<open>Task(**task.dict())\<close> passes \<^verbatim>\<open>title\<close> and
  \<^verbatim>\<open>description\<close> only; on \<^verbatim>\<open>commit\<close> the engine assigns the key and the column defaults
  give \<^verbatim>\<open>completed = False\<close> and \<^verbatim>\<open>created_at = datetime.utcnow()\<close> (the argument \<open>now\<close>);
  \<^verbatim>\<open>refresh\<close> reads the row back.
\<close>

definition create_task :: "TaskCreate \<Rightarrow> datetime \<Rightarrow> database \<Rightarrow> handler_result \<times> database" where
  "create_task task now db =
     (let db_task = \<lparr>task_id = next_rowid (tasks db),
                      task_title = Some (create_title task),
                      task_description = create_description task,
                      task_completed = Some False,
                      task_created_at = now\<rparr>
      in (ReturnTask db_task, db\<lparr>tasks := tasks db @ [db_task]\<rparr>))"

text \<open>
  \<^verbatim>\<open>task.dict(exclude_unset=True)\<close>: the supplied fields with their values, in the order
  of the schema. An entry is a field name with a value of the field's type.
\<close>

datatype assignment =
    SetTitle "string option"
  | SetDescription "string option"
  | SetCompleted "bool option"

definition dict_exclude_unset :: "TaskUpdate \<Rightarrow> assignment list" where
  "dict_exclude_unset task =
     (case update_title task of Unset \<Rightarrow> [] | Provided v \<Rightarrow> [SetTitle v]) @
     (case update_description task of Unset \<Rightarrow> [] | Provided v \<Rightarrow> [SetDescription v]) @
     (case update_completed task of Unset \<Rightarrow> [] | Provided v \<Rightarrow> [SetCompleted v])"

text \<open>\<^verbatim>\<open>setattr(db_task, field, value)\<close>\<close>

fun setattr :: "Task \<Rightarrow> assignment \<Rightarrow> Task" where
  "setattr t (SetTitle v) = t\<lparr>task_title := v\<rparr>"
| "setattr t (SetDescription v) = t\<lparr>task_description := v\<rparr>"
| "setattr t (SetCompleted v) = t\<lparr>task_completed := v\<rparr>"

text \<open>
  \<^verbatim>\<open>def update_task(task_id, task, db)\<close>. The loop over \<^verbatim>\<open>update_data.items()\<close> is the
  left fold of \<open>setattr\<close>; \<^verbatim>\<open>commit\<close> writes the changed columns with
  \<^verbatim>\<open>UPDATE tasks SET ... WHERE id = task_id\<close>, and \<^verbatim>\<open>refresh\<close> reads them back.
\<close>

definition update_task :: "int \<Rightarrow> TaskUpdate \<Rightarrow> database \<Rightarrow> handler_result \<times> database" where
  "update_task tid task db =
     (case query_first tid db of
        Inl e \<Rightarrow> (Raise e, db)
      | Inr None \<Rightarrow> (ReturnDict (ErrorDict ''Task not found''), db)
      | Inr (Some db_task) \<Rightarrow>
          (let update_data = dict_exclude_unset task
           in (ReturnTask (foldl setattr db_task update_data),
               db\<lparr>tasks := map (\<lambda>t. if task_id t = tid then foldl setattr t update_data else t)
                                (tasks db)\<rparr>)))"

text \<open>
  \<^verbatim>\<open>def delete_task(task_id, db)\<close>. \<^verbatim>\<open>db.delete\<close> and \<^verbatim>\<open>commit\<close> issue
  \<^verbatim>\<open>DELETE FROM tasks WHERE id = task_id\<close>.
\<close>

definition delete_task :: "int \<Rightarrow> database \<Rightarrow> (py_error + py_dict) \<times> database" where
  "delete_task tid db =
     (case query_first tid db of
        Inl e \<Rightarrow> (Inl e, db)
      | Inr None \<Rightarrow> (Inr (ErrorDict ''Task not found''), db)
      | Inr (Some db_task) \<Rightarrow>
          (Inr (DeletedDict ''Task deleted successfully'' tid),
           db\<lparr>tasks := filter (\<lambda>t. task_id t \<noteq> tid) (tasks db)\<rparr>))"

section \<open>The HTTP layer around the handlers\<close>

text \<open>
  The route decorators hand three jobs to the framework, and the claims about status
  codes and rejected bodies are about them: FastAPI validates the request body against
  the handler's schema before calling it (a failure is a 422 response and the handler
  never runs), answers with status 200 when the handler returns and with status 500
  when an exception leaves it, and, where the decorator names a \<^verbatim>\<open>response_model\<close>,
  validates what the handler returned against that model before serialising it (a
  failure raises \<^verbatim>\<open>ResponseValidationError\<close>, which is answered with status 500).
\<close>

text \<open>
  A parsed JSON request body. An object is the list of its members; \<^verbatim>\<open>json.loads\<close>
  keeps the last of repeated keys. Numbers with a fraction are left out: the schemas
  modelled here treat them as they treat integers.
\<close>

datatype json =
    JNull
  | JBool bool
  | JNum int
  | JStr string
  | JArr "json list"
  | JObj "(string \<times> json) list"

definition dict_get :: "(string \<times> json) list \<Rightarrow> string \<Rightarrow> json option" where
  "dict_get kvs k = map_of (rev kvs) k"

text \<open>
  Validation of a request body against \<^verbatim>\<open>TaskCreate\<close>. The body must be an object;
  \<^verbatim>\<open>title\<close> is required and must be a string; \<^verbatim>\<open>description\<close> may be missing, \<^verbatim>\<open>null\<close>
  or a string; members of any other name are ignored (Pydantic's default
  \<^verbatim>\<open>extra = "ignore"\<close>).
\<close>

definition TaskCreate_validate :: "json \<Rightarrow> TaskCreate option" where
  "TaskCreate_validate body =
     (case body of
        JObj kvs \<Rightarrow>
          (case dict_get kvs ''title'' of
             Some (JStr s) \<Rightarrow>
               (case dict_get kvs ''description'' of
                  None \<Rightarrow> Some \<lparr>create_title = s, create_description = None\<rparr>
                | Some JNull \<Rightarrow> Some \<lparr>create_title = s, create_description = None\<rparr>
                | Some (JStr d) \<Rightarrow> Some \<lparr>create_title = s, create_description = Some d\<rparr>
                | Some _ \<Rightarrow> None)
           | _ \<Rightarrow> None)
      | _ \<Rightarrow> None)"

text \<open>
  Validation of an ORM object against \<^verbatim>\<open>TaskResponse\<close> (\<^verbatim>\<open>from_attributes = True\<close>):
  the attributes are read by name; \<^verbatim>\<open>title: str\<close> and \<^verbatim>\<open>completed: bool\<close> reject
  \<^verbatim>\<open>None\<close>.
\<close>

definition from_attributes :: "Task \<Rightarrow> TaskResponse option" where
  "from_attributes t =
     (case task_title t of
        None \<Rightarrow> None
      | Some s \<Rightarrow>
          (case task_completed t of
             None \<Rightarrow> None
           | Some c \<Rightarrow>
               Some \<lparr>response_id = task_id t, response_title = s,
                     response_description = task_description t, response_completed = c,
                     response_created_at = task_created_at t\<rparr>))"

datatype response_body =
    TaskBody TaskResponse
  | TaskListBody "TaskResponse list"
  | DictBody py_dict
  | RequestValidationError
  | InternalServerError

record response =
  status_code :: nat
  body :: response_body

text \<open>
  A route declared with \<^verbatim>\<open>response_model=TaskResponse\<close>. An exception that leaves the
  handler is answered with status 500. A returned value is validated against the model:
  an ORM object by its attributes; a dictionary by its keys, and neither dictionary
  literal of the module has a key \<^verbatim>\<open>id\<close>, \<^verbatim>\<open>title\<close>, \<^verbatim>\<open>description\<close>, \<^verbatim>\<open>completed\<close> or
  \<^verbatim>\<open>created_at\<close>, of which the model requires all five.
\<close>

fun serialize_response :: "handler_result \<Rightarrow> response" where
  "serialize_response (Raise e) = \<lparr>status_code = 500, body = InternalServerError\<rparr>"
| "serialize_response (ReturnDict d) = \<lparr>status_code = 500, body = InternalServerError\<rparr>"
| "serialize_response (ReturnTask t) =
     (case from_attributes t of
        None \<Rightarrow> \<lparr>status_code = 500, body = InternalServerError\<rparr>
      | Some tr \<Rightarrow> \<lparr>status_code = 200, body = TaskBody tr\<rparr>)"

text \<open>\<^verbatim>\<open>@app.get("/tasks", response_model=List[TaskResponse])\<close>\<close>

definition route_get_tasks :: "int option \<Rightarrow> int option \<Rightarrow> database \<Rightarrow> response" where
  "route_get_tasks skip limit db =
     (case get_tasks skip limit db of
        Inl e \<Rightarrow> \<lparr>status_code = 500, body = InternalServerError\<rparr>
      | Inr rows \<Rightarrow>
          (case those (map from_attributes rows) of
             None \<Rightarrow> \<lparr>status_code = 500, body = InternalServerError\<rparr>
           | Some trs \<Rightarrow> \<lparr>status_code = 200, body = TaskListBody trs\<rparr>))"

text \<open>\<^verbatim>\<open>@app.get("/tasks/{task_id}", response_model=TaskResponse)\<close>\<close>

definition route_get_task :: "int \<Rightarrow> database \<Rightarrow> response" where
  "route_get_task tid db = serialize_response (get_task tid db)"

text \<open>\<^verbatim>\<open>@app.post("/tasks", response_model=TaskResponse)\<close>\<close>

definition route_create_task :: "json \<Rightarrow> datetime \<Rightarrow> database \<Rightarrow> response \<times> database" where
  "route_create_task request_body now db =
     (case TaskCreate_validate request_body of
        None \<Rightarrow> (\<lparr>status_code = 422, body = RequestValidationError\<rparr>, db)
      | Some task \<Rightarrow>
          (case create_task task now db of
             (r, db') \<Rightarrow> (serialize_response r, db')))"

text \<open>
  \<^verbatim>\<open>@app.put("/tasks/{task_id}", response_model=TaskResponse)\<close>, from the validated
  \<^verbatim>\<open>TaskUpdate\<close> on.
\<close>

definition route_update_task :: "int \<Rightarrow> TaskUpdate \<Rightarrow> database \<Rightarrow> response \<times> database" where
  "route_update_task tid task db =
     (case update_task tid task db of
        (r, db') \<Rightarrow> (serialize_response r, db'))"

text \<open>\<^verbatim>\<open>@app.delete("/tasks/{task_id}")\<close>: no response model, the dictionary is the body.\<close>

definition route_delete_task :: "int \<Rightarrow> database \<Rightarrow> response \<times> database" where
  "route_delete_task tid db =
     (case delete_task tid db of
        (Inl e, db') \<Rightarrow> (\<lparr>status_code = 500, body = InternalServerError\<rparr>, db')
      | (Inr d, db') \<Rightarrow> (\<lparr>status_code = 200, body = DictBody d\<rparr>, db'))"

section \<open>Reachable databases\<close>

text \<open>
  The databases the application can be in: the empty table that
  \<^verbatim>\<open>Base.metadata.create_all\<close> makes, and what the three writing handlers leave behind.
\<close>

inductive reachable :: "database \<Rightarrow> bool" where
  initial: "reachable \<lparr>tasks = []\<rparr>"
| create: "reachable db \<Longrightarrow> reachable (snd (create_task task now db))"
| update: "reachable db \<Longrightarrow> reachable (snd (update_task tid task db))"
| delete: "reachable db \<Longrightarrow> reachable (snd (delete_task tid db))"

section \<open>Facts about the storage operations\<close>

lemma fold_max_ge_init: "(a::int) \<le> fold max xs a"
proof (induction xs arbitrary: a)
  case Nil
  show ?case by simp
next
  case (Cons x xs)
  have "a \<le> max x a" by simp
  also have "\<dots> \<le> fold max xs (max x a)" by (rule Cons.IH)
  finally show ?case by simp
qed

lemma fold_max_ge_elem: "(x::int) \<in> set xs \<Longrightarrow> x \<le> fold max xs a"
proof (induction xs arbitrary: a)
  case Nil
  then show ?case by simp
next
  case (Cons y ys)
  show ?case
  proof (cases "x = y")
    case True
    have "y \<le> max y a" by simp
    also have "\<dots> \<le> fold max ys (max y a)" by (rule fold_max_ge_init)
    finally show ?thesis using True by simp
  next
    case False
    with Cons.prems have "x \<in> set ys" by simp
    then show ?thesis using Cons.IH by simp
  qed
qed

lemma next_rowid_above: "t \<in> set ts \<Longrightarrow> task_id t < next_rowid ts"
proof (cases ts)
  case Nil
  assume "t \<in> set ts"
  with Nil show ?thesis by simp
next
  case (Cons u us)
  assume "t \<in> set ts"
  with Cons have "t = u \<or> t \<in> set us" by simp
  then have "task_id t \<le> fold max (map task_id us) (task_id u)"
  proof
    assume "t = u"
    then show ?thesis by (simp add: fold_max_ge_init)
  next
    assume "t \<in> set us"
    then have "task_id t \<in> set (map task_id us)" by simp
    then show ?thesis by (rule fold_max_ge_elem)
  qed
  with Cons show ?thesis by simp
qed

lemma next_rowid_fresh: "next_rowid ts \<notin> set (map task_id ts)"
proof
  assume "next_rowid ts \<in> set (map task_id ts)"
  then obtain t where "t \<in> set ts" and "task_id t = next_rowid ts" by auto
  with next_rowid_above [of t ts] show False by simp
qed

lemma find_absent: "k \<notin> set (map task_id ts) \<Longrightarrow> find (\<lambda>t. task_id t = k) ts = None"
  by (induction ts) auto


lemma query_first_in_range:
  "sqlite_integer tid \<Longrightarrow> query_first tid db = Inr (find (\<lambda>t. task_id t = tid) (tasks db))"
  by (simp add: query_first_def)

lemma query_first_out_of_range: "\<not> sqlite_integer tid \<Longrightarrow> query_first tid db = Inl OverflowError"
  by (simp add: query_first_def)

lemma query_first_absent:
  "tid \<notin> set (map task_id (tasks db))
   \<Longrightarrow> query_first tid db = (if sqlite_integer tid then Inr None else Inl OverflowError)"
  by (simp add: query_first_def find_absent)

lemma query_first_Some_id:
  "query_first tid db = Inr (Some t)
   \<Longrightarrow> sqlite_integer tid \<and> find (\<lambda>t. task_id t = tid) (tasks db) = Some t
       \<and> task_id t = tid \<and> t \<in> set (tasks db)"
  by (auto simp: query_first_def find_Some_iff split: if_splits)

lemma setattr_keeps_id: "task_id (setattr t a) = task_id t"
  by (cases a) simp_all

lemma setattr_keeps_created_at: "task_created_at (setattr t a) = task_created_at t"
  by (cases a) simp_all

lemma foldl_setattr_keeps_id: "task_id (foldl setattr t as) = task_id t"
  by (induction as arbitrary: t) (simp_all add: setattr_keeps_id)

lemma foldl_setattr_keeps_created_at: "task_created_at (foldl setattr t as) = task_created_at t"
  by (induction as arbitrary: t) (simp_all add: setattr_keeps_created_at)

lemma find_map_same_key:
  assumes "\<And>t. task_id (g t) = task_id t"
  shows "find (\<lambda>t. task_id t = k) (map (\<lambda>t. if task_id t = k then g t else t) ts)
         = map_option g (find (\<lambda>t. task_id t = k) ts)"
  using assms by (induction ts) simp_all

lemma find_map_other_key:
  assumes "\<And>t. task_id (g t) = task_id t" and "j \<noteq> k"
  shows "find (\<lambda>t. task_id t = j) (map (\<lambda>t. if task_id t = k then g t else t) ts)
         = find (\<lambda>t. task_id t = j) ts"
  using assms by (induction ts) simp_all

lemma filter_map_other_keys:
  assumes "\<And>t. task_id (g t) = task_id t"
  shows "filter (\<lambda>t. task_id t \<noteq> k) (map (\<lambda>t. if task_id t = k then g t else t) ts)
         = filter (\<lambda>t. task_id t \<noteq> k) ts"
  using assms by (induction ts) simp_all

lemma map_id_map_update:
  assumes "\<And>t. task_id (g t) = task_id t"
  shows "map task_id (map (\<lambda>t. if task_id t = k then g t else t) ts) = map task_id ts"
  using assms by (induction ts) simp_all

lemma map_created_at_map_update:
  assumes "\<And>t. task_created_at (g t) = task_created_at t"
  shows "map task_created_at (map (\<lambda>t. if task_id t = k then g t else t) ts)
         = map task_created_at ts"
  using assms by (induction ts) simp_all

lemma find_filter_same_key: "find (\<lambda>t. task_id t = k) (filter (\<lambda>t. task_id t \<noteq> k) ts) = None"
  by (induction ts) simp_all

lemma find_filter_other_key:
  "j \<noteq> k \<Longrightarrow> find (\<lambda>t. task_id t = j) (filter (\<lambda>t. task_id t \<noteq> k) ts)
              = find (\<lambda>t. task_id t = j) ts"
  by (induction ts) simp_all

lemma filter_distinct_key_remove1:
  "distinct (map task_id ts) \<Longrightarrow> t \<in> set ts
   \<Longrightarrow> filter (\<lambda>u. task_id u \<noteq> task_id t) ts = remove1 t ts"
proof (induction ts)
  case Nil
  then show ?case by simp
next
  case (Cons u us)
  show ?case
  proof (cases "u = t")
    case True
    with Cons.prems have "task_id t \<notin> set (map task_id us)" by simp
    then have "filter (\<lambda>v. task_id v \<noteq> task_id t) us = us"
      by (induction us) auto
    with True show ?thesis by simp
  next
    case False
    with Cons.prems have mem: "t \<in> set us" and d: "distinct (map task_id us)"
      and "task_id u \<notin> set (map task_id us)" by simp_all
    then have "task_id u \<noteq> task_id t" by force
    with False Cons.IH [OF d mem] show ?thesis by simp
  qed
qed

subsection \<open>The fields after the loop over the supplied fields\<close>

lemma update_data_title:
  "task_title (foldl setattr t (dict_exclude_unset task))
   = (case update_title task of Unset \<Rightarrow> task_title t | Provided v \<Rightarrow> v)"
  by (cases "update_title task"; cases "update_description task"; cases "update_completed task")
     (simp_all add: dict_exclude_unset_def)

lemma update_data_description:
  "task_description (foldl setattr t (dict_exclude_unset task))
   = (case update_description task of Unset \<Rightarrow> task_description t | Provided v \<Rightarrow> v)"
  by (cases "update_title task"; cases "update_description task"; cases "update_completed task")
     (simp_all add: dict_exclude_unset_def)

lemma update_data_completed:
  "task_completed (foldl setattr t (dict_exclude_unset task))
   = (case update_completed task of Unset \<Rightarrow> task_completed t | Provided v \<Rightarrow> v)"
  by (cases "update_title task"; cases "update_description task"; cases "update_completed task")
     (simp_all add: dict_exclude_unset_def)


subsection \<open>The primary key in reachable databases\<close>

lemma create_task_tasks:
  "tasks (snd (create_task task now db))
   = tasks db @ [\<lparr>task_id = next_rowid (tasks db), task_title = Some (create_title task),
                  task_description = create_description task, task_completed = Some False,
                  task_created_at = now\<rparr>]"
  by (simp add: create_task_def Let_def)

lemma update_task_ids: "map task_id (tasks (snd (update_task tid task db))) = map task_id (tasks db)"
  by (simp add: update_task_def Let_def map_id_map_update foldl_setattr_keeps_id
        split: sum.splits option.splits)

lemma update_task_created_ats:
  "map task_created_at (tasks (snd (update_task tid task db))) = map task_created_at (tasks db)"
  by (simp add: update_task_def Let_def map_created_at_map_update
        foldl_setattr_keeps_created_at split: sum.splits option.splits)

lemma filter_absent_key:
  "k \<notin> set (map task_id ts) \<Longrightarrow> filter (\<lambda>t. task_id t \<noteq> k) ts = ts"
  by (induction ts) auto

lemma delete_task_out_of_range: "\<not> sqlite_integer tid \<Longrightarrow> delete_task tid db = (Inl OverflowError, db)"
  by (simp add: delete_task_def query_first_def)

lemma delete_task_tasks:
  assumes "sqlite_integer tid"
  shows "tasks (snd (delete_task tid db)) = filter (\<lambda>t. task_id t \<noteq> tid) (tasks db)"
proof (cases "find (\<lambda>t. task_id t = tid) (tasks db)")
  case None
  then have "tid \<notin> set (map task_id (tasks db))" by (auto simp: find_None_iff)
  then have "filter (\<lambda>t. task_id t \<noteq> tid) (tasks db) = tasks db" by (rule filter_absent_key)
  with None assms show ?thesis by (simp add: delete_task_def query_first_def)
next
  case (Some t)
  with assms show ?thesis by (simp add: delete_task_def query_first_def)
qed

lemma reachable_distinct_ids: "reachable db \<Longrightarrow> distinct (map task_id (tasks db))"
proof (induction rule: reachable.induct)
  case initial
  show ?case by simp
next
  case (create db task now)
  have "next_rowid (tasks db) \<notin> set (map task_id (tasks db))" by (rule next_rowid_fresh)
  with create.IH show ?case by (simp add: create_task_tasks)
next
  case (update db tid task)
  then show ?case by (simp add: update_task_ids)
next
  case (delete db tid)
  show ?case
  proof (cases "sqlite_integer tid")
    case True
    with delete.IH show ?thesis by (simp add: delete_task_tasks distinct_map_filter)
  next
    case False
    with delete.IH show ?thesis by (simp add: delete_task_out_of_range)
  qed
qed

section \<open>Fetching a task\<close>

lemma get_task_missing:
  "sqlite_integer tid \<Longrightarrow> tid \<notin> set (map task_id (tasks db))
   \<Longrightarrow> get_task tid db = ReturnDict (ErrorDict ''Task not found'')"
  by (simp add: get_task_def query_first_absent)

lemma route_get_task_missing:
  "tid \<notin> set (map task_id (tasks db))
   \<Longrightarrow> route_get_task tid db = \<lparr>status_code = 500, body = InternalServerError\<rparr>"
  by (simp add: route_get_task_def get_task_def query_first_absent)

text \<open>
  C1. Fetching an id that is not in storage: the handler \<open>get_task\<close> returns the
  dictionary \<^verbatim>\<open>{"error": "Task not found"}\<close>, but the route is declared with
  \<^verbatim>\<open>response_model=TaskResponse\<close> and the dictionary has none of the model's required
  fields, so the request for id 999999 on an empty table is answered with status 500 and
  not with status 200 and that body. (\<open>route_get_task_missing\<close> is the same fact for every
  absent id.)
\<close>

theorem route_get_task_absent_id_status:
  "get_task 999999 \<lparr>tasks = []\<rparr> = ReturnDict (ErrorDict ''Task not found'')
   \<and> route_get_task 999999 \<lparr>tasks = []\<rparr> = \<lparr>status_code = 500, body = InternalServerError\<rparr>"
  by (simp add: route_get_task_def get_task_def query_first_def sqlite_integer_def)

section \<open>Creating a task\<close>


text \<open>
  C7. For every title and optional description, \<open>create_task\<close> returns the full record
  and appends it to the table: its id is one no stored task has, its \<open>created_at\<close> is
  the time of the insert, its title and description are those of the request (so the
  description is null when none was supplied) and \<open>completed\<close> is false.
\<close>

theorem create_task_record:
  "\<exists>t. create_task task now db = (ReturnTask t, db\<lparr>tasks := tasks db @ [t]\<rparr>)
     \<and> task_id t \<notin> set (map task_id (tasks db))
     \<and> task_created_at t = now
     \<and> task_title t = Some (create_title task)
     \<and> task_description t = create_description task
     \<and> task_completed t = Some False"
  using next_rowid_fresh [of "tasks db"] by (simp add: create_task_def Let_def)



section \<open>Ids that are not in storage\<close>

lemma route_update_task_absent_id:
  "tid \<notin> set (map task_id (tasks db))
   \<Longrightarrow> route_update_task tid task db = (\<lparr>status_code = 500, body = InternalServerError\<rparr>, db)"
  by (simp add: route_update_task_def update_task_def query_first_absent)

text \<open>
  C5, as the claim states it, fails at an id outside the signed 64-bit range: for the
  absent id \<open>2^63\<close> the query of \<open>update_task\<close> and of \<open>delete_task\<close> raises
  \<^verbatim>\<open>OverflowError\<close>, and neither handler returns the not-found dictionary.
\<close>

theorem absent_id_out_of_range_counterexample:
  "(9223372036854775808::int) \<notin> set (map task_id (tasks \<lparr>tasks = []\<rparr>))
   \<and> update_task 9223372036854775808
        \<lparr>update_title = Unset, update_description = Unset,
          update_completed = Provided (Some True)\<rparr> \<lparr>tasks = []\<rparr>
      = (Raise OverflowError, \<lparr>tasks = []\<rparr>)
   \<and> fst (update_task 9223372036854775808
        \<lparr>update_title = Unset, update_description = Unset,
          update_completed = Provided (Some True)\<rparr> \<lparr>tasks = []\<rparr>)
      \<noteq> ReturnDict (ErrorDict ''Task not found'')
   \<and> delete_task 9223372036854775808 \<lparr>tasks = []\<rparr> = (Inl OverflowError, \<lparr>tasks = []\<rparr>)
   \<and> fst (delete_task 9223372036854775808 \<lparr>tasks = []\<rparr>) \<noteq> Inr (ErrorDict ''Task not found'')"
  by (simp add: update_task_def delete_task_def query_first_def sqlite_integer_def)

text \<open>
  C5, amended. For every id that no stored task has, \<open>update_task\<close> and \<open>delete_task\<close>
  leave the database as it was given. When the id is a signed 64-bit integer both
  handlers return the not-found dictionary, and the delete route delivers it with status
  200; when it is not, the query raises \<^verbatim>\<open>OverflowError\<close> and the delete route answers
  with status 500. The update route leaves the database unchanged as well.
\<close>

theorem absent_id_update_delete_unchanged:
  assumes "tid \<notin> set (map task_id (tasks db))"
  shows "update_task tid task db
         = (if sqlite_integer tid then ReturnDict (ErrorDict ''Task not found'')
            else Raise OverflowError, db)
       \<and> delete_task tid db
         = (if sqlite_integer tid then Inr (ErrorDict ''Task not found'')
            else Inl OverflowError, db)
       \<and> route_delete_task tid db
         = (if sqlite_integer tid
            then \<lparr>status_code = 200, body = DictBody (ErrorDict ''Task not found'')\<rparr>
            else \<lparr>status_code = 500, body = InternalServerError\<rparr>, db)
       \<and> snd (route_update_task tid task db) = db"
  using assms
  by (simp add: update_task_def delete_task_def route_delete_task_def route_update_task_def
        query_first_absent)

theorem absent_id_update_delete_unchanged_witness:
  "(7::int) \<notin> set (map task_id (tasks \<lparr>tasks = [\<lparr>task_id = 1, task_title = Some ''a'',
        task_description = None, task_completed = Some False, task_created_at = 5\<rparr>]\<rparr>))
   \<and> sqlite_integer 7
   \<and> update_task 7 \<lparr>update_title = Provided (Some ''b''), update_description = Unset,
                     update_completed = Unset\<rparr>
        \<lparr>tasks = [\<lparr>task_id = 1, task_title = Some ''a'',
        task_description = None, task_completed = Some False, task_created_at = 5\<rparr>]\<rparr>
      = (ReturnDict (ErrorDict ''Task not found''),
         \<lparr>tasks = [\<lparr>task_id = 1, task_title = Some ''a'',
        task_description = None, task_completed = Some False, task_created_at = 5\<rparr>]\<rparr>)
   \<and> delete_task 7 \<lparr>tasks = [\<lparr>task_id = 1, task_title = Some ''a'',
        task_description = None, task_completed = Some False, task_created_at = 5\<rparr>]\<rparr>
      = (Inr (ErrorDict ''Task not found''),
         \<lparr>tasks = [\<lparr>task_id = 1, task_title = Some ''a'',
        task_description = None, task_completed = Some False, task_created_at = 5\<rparr>]\<rparr>)
   \<and> route_delete_task 7 \<lparr>tasks = [\<lparr>task_id = 1, task_title = Some ''a'',
        task_description = None, task_completed = Some False, task_created_at = 5\<rparr>]\<rparr>
      = (\<lparr>status_code = 200, body = DictBody (ErrorDict ''Task not found'')\<rparr>,
         \<lparr>tasks = [\<lparr>task_id = 1, task_title = Some ''a'',
        task_description = None, task_completed = Some False, task_created_at = 5\<rparr>]\<rparr>)"
proof -
  let ?db = "\<lparr>tasks = [\<lparr>task_id = 1, task_title = Some ''a'',
        task_description = None, task_completed = Some False, task_created_at = 5\<rparr>]\<rparr>"
  have h: "(7::int) \<notin> set (map task_id (tasks ?db))" by simp
  have r: "sqlite_integer 7" by (simp add: sqlite_integer_def)
  from absent_id_update_delete_unchanged [OF h] r h show ?thesis by simp
qed

section \<open>Updating a task\<close>

lemma find_after_update:
  "find (\<lambda>t. task_id t = tid) (tasks db) = Some old
   \<Longrightarrow> find (\<lambda>t. task_id t = tid)
         (map (\<lambda>t. if task_id t = tid then foldl setattr t as else t) (tasks db))
       = Some (foldl setattr old as)"
  by (simp add: find_map_same_key foldl_setattr_keeps_id)

text \<open>
  C3. For every stored task and every partial update, \<open>update_task\<close> returns and stores
  the task in which each supplied field has the supplied value and each field left out
  has the value it had; id and \<open>created_at\<close> are as before and the rows of other ids are
  untouched. In particular an update that supplies only \<open>completed = true\<close> sets
  \<open>completed\<close> and changes neither title nor description.
\<close>

theorem update_applies_supplied_fields:
  assumes "query_first tid db = Inr (Some old)"
  shows "(\<exists>new db'. update_task tid task db = (ReturnTask new, db')
       \<and> task_title new = (case update_title task of Unset \<Rightarrow> task_title old | Provided v \<Rightarrow> v)
       \<and> task_description new
           = (case update_description task of Unset \<Rightarrow> task_description old | Provided v \<Rightarrow> v)
       \<and> task_completed new
           = (case update_completed task of Unset \<Rightarrow> task_completed old | Provided v \<Rightarrow> v)
       \<and> task_id new = task_id old
       \<and> task_created_at new = task_created_at old
       \<and> query_first tid db' = Inr (Some new)
       \<and> filter (\<lambda>t. task_id t \<noteq> tid) (tasks db') = filter (\<lambda>t. task_id t \<noteq> tid) (tasks db)
       \<and> length (tasks db') = length (tasks db))
     \<and> fst (update_task tid \<lparr>update_title = Unset, update_description = Unset,
                              update_completed = Provided (Some True)\<rparr> db)
         = ReturnTask (old\<lparr>task_completed := Some True\<rparr>)"
proof -
  let ?new = "foldl setattr old (dict_exclude_unset task)"
  let ?db' = "snd (update_task tid task db)"
  from assms have r: "sqlite_integer tid"
    and o: "find (\<lambda>t. task_id t = tid) (tasks db) = Some old"
    by (simp_all add: query_first_Some_id)
  have u: "update_task tid task db = (ReturnTask ?new, ?db')"
    using assms by (simp add: update_task_def Let_def)
  have t: "tasks ?db'
      = map (\<lambda>t. if task_id t = tid then foldl setattr t (dict_exclude_unset task) else t)
          (tasks db)"
    using assms by (simp add: update_task_def Let_def)
  have q: "query_first tid ?db' = Inr (Some ?new)"
    unfolding query_first_in_range [OF r] t find_after_update [OF o] ..
  have f: "filter (\<lambda>t. task_id t \<noteq> tid) (tasks ?db') = filter (\<lambda>t. task_id t \<noteq> tid) (tasks db)"
    unfolding t by (simp add: filter_map_other_keys foldl_setattr_keeps_id)
  have l: "length (tasks ?db') = length (tasks db)"
    unfolding t by simp
  have first: "\<exists>new db'. update_task tid task db = (ReturnTask new, db')
       \<and> task_title new = (case update_title task of Unset \<Rightarrow> task_title old | Provided v \<Rightarrow> v)
       \<and> task_description new
           = (case update_description task of Unset \<Rightarrow> task_description old | Provided v \<Rightarrow> v)
       \<and> task_completed new
           = (case update_completed task of Unset \<Rightarrow> task_completed old | Provided v \<Rightarrow> v)
       \<and> task_id new = task_id old
       \<and> task_created_at new = task_created_at old
       \<and> query_first tid db' = Inr (Some new)
       \<and> filter (\<lambda>t. task_id t \<noteq> tid) (tasks db') = filter (\<lambda>t. task_id t \<noteq> tid) (tasks db)
       \<and> length (tasks db') = length (tasks db)"
    using u q f l update_data_title [of old task] update_data_description [of old task]
      update_data_completed [of old task] foldl_setattr_keeps_id [of old "dict_exclude_unset task"]
      foldl_setattr_keeps_created_at [of old "dict_exclude_unset task"]
    by blast
  have second: "fst (update_task tid \<lparr>update_title = Unset, update_description = Unset,
                              update_completed = Provided (Some True)\<rparr> db)
         = ReturnTask (old\<lparr>task_completed := Some True\<rparr>)"
    using assms by (simp add: update_task_def Let_def dict_exclude_unset_def)
  from first second show ?thesis by (rule conjI)
qed

theorem update_applies_supplied_fields_witness:
  "query_first 2 \<lparr>tasks = [\<lparr>task_id = 1, task_title = Some ''a'', task_description = None,
                             task_completed = Some False, task_created_at = 5\<rparr>,
                           \<lparr>task_id = 2, task_title = Some ''b'', task_description = Some ''d'',
                             task_completed = Some False, task_created_at = 6\<rparr>]\<rparr>
     = Inr (Some \<lparr>task_id = 2, task_title = Some ''b'', task_description = Some ''d'',
                   task_completed = Some False, task_created_at = 6\<rparr>)
   \<and> update_task 2 \<lparr>update_title = Unset, update_description = Unset,
                     update_completed = Provided (Some True)\<rparr>
        \<lparr>tasks = [\<lparr>task_id = 1, task_title = Some ''a'', task_description = None,
                    task_completed = Some False, task_created_at = 5\<rparr>,
                  \<lparr>task_id = 2, task_title = Some ''b'', task_description = Some ''d'',
                    task_completed = Some False, task_created_at = 6\<rparr>]\<rparr>
     = (ReturnTask \<lparr>task_id = 2, task_title = Some ''b'', task_description = Some ''d'',
                     task_completed = Some True, task_created_at = 6\<rparr>,
        \<lparr>tasks = [\<lparr>task_id = 1, task_title = Some ''a'', task_description = None,
                    task_completed = Some False, task_created_at = 5\<rparr>,
                  \<lparr>task_id = 2, task_title = Some ''b'', task_description = Some ''d'',
                    task_completed = Some True, task_created_at = 6\<rparr>]\<rparr>)"
proof -
  let ?db = "\<lparr>tasks = [\<lparr>task_id = 1, task_title = Some ''a'', task_description = None,
                             task_completed = Some False, task_created_at = 5\<rparr>,
                           \<lparr>task_id = 2, task_title = Some ''b'', task_description = Some ''d'',
                             task_completed = Some False, task_created_at = 6\<rparr>]\<rparr>"
  let ?old = "\<lparr>task_id = 2, task_title = Some ''b'', task_description = Some ''d'',
              task_completed = Some False, task_created_at = 6\<rparr>"
  let ?task = "\<lparr>update_title = Unset, update_description = Unset,
                     update_completed = Provided (Some True)\<rparr>"
  have h: "query_first 2 ?db = Inr (Some ?old)"
    by (simp add: query_first_def sqlite_integer_def)
  have d: "snd (update_task 2 ?task ?db)
     = \<lparr>tasks = [\<lparr>task_id = 1, task_title = Some ''a'', task_description = None,
                    task_completed = Some False, task_created_at = 5\<rparr>,
                  \<lparr>task_id = 2, task_title = Some ''b'', task_description = Some ''d'',
                    task_completed = Some True, task_created_at = 6\<rparr>]\<rparr>"
    by (simp add: update_task_def query_first_def sqlite_integer_def dict_exclude_unset_def)
  from update_applies_supplied_fields [OF h, of ?task]
  have "fst (update_task 2 ?task ?db) = ReturnTask (?old\<lparr>task_completed := Some True\<rparr>)"
    by blast
  with h d show ?thesis by (simp add: prod_eq_iff)
qed

section \<open>Deleting a task\<close>

text \<open>
  What \<open>delete_task\<close> does for a task in storage: it returns the dictionary with the
  message and the id, which the route delivers with status 200, removes the rows of that
  id and no other (with a unique key: exactly that record), leaves every other id's task
  as it was, and the handler \<open>get_task\<close> then returns the not-found dictionary.
\<close>

lemma delete_task_present:
  assumes "query_first tid db = Inr (Some t)"
  shows "\<exists>db'. delete_task tid db = (Inr (DeletedDict ''Task deleted successfully'' tid), db')
       \<and> route_delete_task tid db
           = (\<lparr>status_code = 200,
               body = DictBody (DeletedDict ''Task deleted successfully'' tid)\<rparr>, db')
       \<and> get_task tid db' = ReturnDict (ErrorDict ''Task not found'')
       \<and> tasks db' = filter (\<lambda>u. task_id u \<noteq> tid) (tasks db)
       \<and> (\<forall>k. k \<noteq> tid \<longrightarrow> get_task k db' = get_task k db)
       \<and> (distinct (map task_id (tasks db)) \<longrightarrow> tasks db' = remove1 t (tasks db))"
proof -
  let ?db' = "db\<lparr>tasks := filter (\<lambda>u. task_id u \<noteq> tid) (tasks db)\<rparr>"
  from assms have r: "sqlite_integer tid" by (simp add: query_first_Some_id)
  have d: "delete_task tid db = (Inr (DeletedDict ''Task deleted successfully'' tid), ?db')"
    using assms by (simp add: delete_task_def)
  then have rt: "route_delete_task tid db
           = (\<lparr>status_code = 200,
               body = DictBody (DeletedDict ''Task deleted successfully'' tid)\<rparr>, ?db')"
    by (simp add: route_delete_task_def)
  have g: "get_task tid ?db' = ReturnDict (ErrorDict ''Task not found'')"
    using r by (simp add: get_task_def query_first_def find_filter_same_key)
  have f: "tasks ?db' = filter (\<lambda>u. task_id u \<noteq> tid) (tasks db)" by simp
  have o: "\<forall>k. k \<noteq> tid \<longrightarrow> get_task k ?db' = get_task k db"
    by (simp add: get_task_def query_first_def find_filter_other_key)
  have e: "distinct (map task_id (tasks db)) \<longrightarrow> tasks ?db' = remove1 t (tasks db)"
  proof
    assume dist: "distinct (map task_id (tasks db))"
    from assms have "task_id t = tid" and "t \<in> set (tasks db)"
      by (simp_all add: query_first_Some_id)
    with filter_distinct_key_remove1 [OF dist, of t] show "tasks ?db' = remove1 t (tasks db)"
      by simp
  qed
  from d rt g f o e show ?thesis by blast
qed

text \<open>
  C8. Deleting a stored task and then fetching its id: in the table of tasks 1 and 2,
  the delete route for id 1 answers with status 200 and \<^verbatim>\<open>{message, id: 1}\<close> and leaves
  task 2 alone; the handler \<open>get_task\<close> for id 1 then returns the not-found dictionary,
  and the get route, declared with \<^verbatim>\<open>response_model=TaskResponse\<close>, answers it with
  status 500 and not with the not-found body.
\<close>

theorem delete_then_get_route_status:
  "route_delete_task 1
     \<lparr>tasks = [\<lparr>task_id = 1, task_title = Some ''a'', task_description = None,
                 task_completed = Some False, task_created_at = 5\<rparr>,
               \<lparr>task_id = 2, task_title = Some ''b'', task_description = Some ''d'',
                 task_completed = Some False, task_created_at = 6\<rparr>]\<rparr>
   = (\<lparr>status_code = 200, body = DictBody (DeletedDict ''Task deleted successfully'' 1)\<rparr>,
      \<lparr>tasks = [\<lparr>task_id = 2, task_title = Some ''b'', task_description = Some ''d'',
                  task_completed = Some False, task_created_at = 6\<rparr>]\<rparr>)
   \<and> get_task 1
       \<lparr>tasks = [\<lparr>task_id = 2, task_title = Some ''b'', task_description = Some ''d'',
                   task_completed = Some False, task_created_at = 6\<rparr>]\<rparr>
     = ReturnDict (ErrorDict ''Task not found'')
   \<and> route_get_task 1
       \<lparr>tasks = [\<lparr>task_id = 2, task_title = Some ''b'', task_description = Some ''d'',
                   task_completed = Some False, task_created_at = 6\<rparr>]\<rparr>
     = \<lparr>status_code = 500, body = InternalServerError\<rparr>"
  by (simp add: route_delete_task_def delete_task_def route_get_task_def get_task_def
        query_first_def sqlite_integer_def)

section \<open>Listing tasks\<close>

text \<open>
  C6, as the claim states it, fails at a non-negative \<open>skip\<close> or \<open>limit\<close> outside the
  signed 64-bit range: with \<open>skip = 2^63\<close>, or with \<open>limit = 2^63\<close>, the statement cannot
  be bound, \<open>get_tasks\<close> raises \<^verbatim>\<open>OverflowError\<close> and returns no list.
\<close>

theorem get_tasks_out_of_range_counterexample:
  "(0::int) \<le> 9223372036854775808
   \<and> get_tasks (Some 9223372036854775808) (Some 10) \<lparr>tasks = []\<rparr> = Inl OverflowError
   \<and> get_tasks (Some 0) (Some 9223372036854775808) \<lparr>tasks = []\<rparr> = Inl OverflowError
   \<and> route_get_tasks (Some 9223372036854775808) (Some 10) \<lparr>tasks = []\<rparr>
       = \<lparr>status_code = 500, body = InternalServerError\<rparr>"
  by (simp add: get_tasks_def route_get_tasks_def sql_offset_def sql_limit_def
        sqlite_integer_def)

text \<open>
  C6, amended. For non-negative \<open>skip\<close> and \<open>limit\<close> that are signed 64-bit integers,
  \<open>get_tasks\<close> returns the stored rows after the first \<open>skip\<close>, cut to \<open>limit\<close> rows, so
  at most \<open>limit\<close> of them; for a larger \<open>skip\<close> or \<open>limit\<close> it raises
  \<^verbatim>\<open>OverflowError\<close>. An omitted \<open>skip\<close> is 0 and an omitted \<open>limit\<close> is 10. After three
  creates into the empty table, \<open>skip = 0\<close> and \<open>limit = 10\<close> give the three created
  tasks in the order of creation, and the route answers with status 200 and their three
  bodies in that order.
\<close>

theorem get_tasks_pagination:
  assumes "0 \<le> skip" and "0 \<le> limit"
  shows "get_tasks (Some skip) (Some limit) db
         = (if sqlite_integer skip \<and> sqlite_integer limit
            then Inr (take (nat limit) (drop (nat skip) (tasks db)))
            else Inl OverflowError)
       \<and> int (length (take (nat limit) (drop (nat skip) (tasks db)))) \<le> limit
       \<and> get_tasks None None db = get_tasks (Some 0) (Some 10) db
       \<and> get_tasks None (Some limit) db = get_tasks (Some 0) (Some limit) db
       \<and> get_tasks (Some skip) None db = get_tasks (Some skip) (Some 10) db
       \<and> (case create_task c1 n1 \<lparr>tasks = []\<rparr> of (r1, db1) \<Rightarrow>
            case create_task c2 n2 db1 of (r2, db2) \<Rightarrow>
            case create_task c3 n3 db2 of (r3, db3) \<Rightarrow>
              map_sum id (map ReturnTask) (get_tasks (Some 0) (Some 10) db3) = Inr [r1, r2, r3]
            \<and> route_get_tasks (Some 0) (Some 10) db3
              = \<lparr>status_code = 200,
                 body = TaskListBody
                   [\<lparr>response_id = 1, response_title = create_title c1,
                      response_description = create_description c1,
                      response_completed = False, response_created_at = n1\<rparr>,
                    \<lparr>response_id = 2, response_title = create_title c2,
                      response_description = create_description c2,
                      response_completed = False, response_created_at = n2\<rparr>,
                    \<lparr>response_id = 3, response_title = create_title c3,
                      response_description = create_description c3,
                      response_completed = False, response_created_at = n3\<rparr>]\<rparr>)"
proof -
  have a: "get_tasks (Some skip) (Some limit) db
         = (if sqlite_integer skip \<and> sqlite_integer limit
            then Inr (take (nat limit) (drop (nat skip) (tasks db)))
            else Inl OverflowError)"
    using assms by (simp add: get_tasks_def sql_limit_def sql_offset_def)
  have b: "int (length (take (nat limit) (drop (nat skip) (tasks db)))) \<le> limit"
    using assms by simp
  have c: "get_tasks None None db = get_tasks (Some 0) (Some 10) db"
    by (simp add: get_tasks_def)
  have d: "get_tasks None (Some limit) db = get_tasks (Some 0) (Some limit) db"
    by (simp add: get_tasks_def)
  have e: "get_tasks (Some skip) None db = get_tasks (Some skip) (Some 10) db"
    by (simp add: get_tasks_def)
  have f: "(case create_task c1 n1 \<lparr>tasks = []\<rparr> of (r1, db1) \<Rightarrow>
            case create_task c2 n2 db1 of (r2, db2) \<Rightarrow>
            case create_task c3 n3 db2 of (r3, db3) \<Rightarrow>
              map_sum id (map ReturnTask) (get_tasks (Some 0) (Some 10) db3) = Inr [r1, r2, r3]
            \<and> route_get_tasks (Some 0) (Some 10) db3
              = \<lparr>status_code = 200,
                 body = TaskListBody
                   [\<lparr>response_id = 1, response_title = create_title c1,
                      response_description = create_description c1,
                      response_completed = False, response_created_at = n1\<rparr>,
                    \<lparr>response_id = 2, response_title = create_title c2,
                      response_description = create_description c2,
                      response_completed = False, response_created_at = n2\<rparr>,
                    \<lparr>response_id = 3, response_title = create_title c3,
                      response_description = create_description c3,
                      response_completed = False, response_created_at = n3\<rparr>]\<rparr>)"
    by (simp add: create_task_def Let_def get_tasks_def route_get_tasks_def sql_limit_def
          sql_offset_def sqlite_integer_def from_attributes_def)
  from a b c d e f show ?thesis by blast
qed

theorem get_tasks_pagination_witness:
  "(0::int) \<le> 1 \<and> sqlite_integer 1
   \<and> get_tasks (Some 1) (Some 1)
        \<lparr>tasks = [\<lparr>task_id = 1, task_title = Some ''a'', task_description = None,
                    task_completed = Some False, task_created_at = 5\<rparr>,
                  \<lparr>task_id = 2, task_title = Some ''b'', task_description = None,
                    task_completed = Some False, task_created_at = 6\<rparr>,
                  \<lparr>task_id = 3, task_title = Some ''c'', task_description = None,
                    task_completed = Some False, task_created_at = 7\<rparr>]\<rparr>
      = Inr [\<lparr>task_id = 2, task_title = Some ''b'', task_description = None,
               task_completed = Some False, task_created_at = 6\<rparr>]"
proof -
  let ?db = "\<lparr>tasks = [\<lparr>task_id = 1, task_title = Some ''a'', task_description = None,
                    task_completed = Some False, task_created_at = 5\<rparr>,
                  \<lparr>task_id = 2, task_title = Some ''b'', task_description = None,
                    task_completed = Some False, task_created_at = 6\<rparr>,
                  \<lparr>task_id = 3, task_title = Some ''c'', task_description = None,
                    task_completed = Some False, task_created_at = 7\<rparr>]\<rparr>"
  have h: "(0::int) \<le> 1" by simp
  have r: "sqlite_integer 1" by (simp add: sqlite_integer_def)
  from get_tasks_pagination [OF h h, of ?db]
  have "get_tasks (Some 1) (Some 1) ?db
      = (if sqlite_integer 1 \<and> sqlite_integer 1
         then Inr (take (nat 1) (drop (nat 1) (tasks ?db))) else Inl OverflowError)"
    by blast
  with r have "get_tasks (Some 1) (Some 1) ?db
      = Inr [\<lparr>task_id = 2, task_title = Some ''b'', task_description = None,
               task_completed = Some False, task_created_at = 6\<rparr>]"
    by simp
  with h r show ?thesis by simp
qed

section \<open>Validation of the create body\<close>

lemma map_of_absent_key: "k \<notin> set (map fst kvs) \<Longrightarrow> map_of (rev kvs) k = None"
  by (simp add: map_of_eq_None_iff)

lemma map_of_filter_keys:
  "map_of (filter (\<lambda>kv. P (fst kv)) xs) k = (if P k then map_of xs k else None)"
  by (induction xs) auto

lemma dict_get_filter_keys:
  "P k \<Longrightarrow> dict_get (filter (\<lambda>kv. P (fst kv)) kvs) k = dict_get kvs k"
  by (simp add: dict_get_def rev_filter map_of_filter_keys)

text \<open>
  C9. For every create body that is an object without a \<open>title\<close> member, the route
  answers with the client error 422 and returns the database it was given: the handler,
  and with it every write, is never reached.
\<close>

theorem create_without_title_rejected:
  assumes "''title'' \<notin> set (map fst kvs)"
  shows "route_create_task (JObj kvs) now db
       = (\<lparr>status_code = 422, body = RequestValidationError\<rparr>, db)"
proof -
  from assms have "dict_get kvs ''title'' = None"
    unfolding dict_get_def by (rule map_of_absent_key)
  then show ?thesis by (simp add: route_create_task_def TaskCreate_validate_def)
qed

theorem create_without_title_rejected_witness:
  "''title'' \<notin> set (map fst [(''description'', JStr ''no title''), (''completed'', JBool True)])
   \<and> route_create_task (JObj [(''description'', JStr ''no title''), (''completed'', JBool True)]) 9
        \<lparr>tasks = [\<lparr>task_id = 1, task_title = Some ''a'', task_description = None,
                    task_completed = Some False, task_created_at = 5\<rparr>]\<rparr>
      = (\<lparr>status_code = 422, body = RequestValidationError\<rparr>,
         \<lparr>tasks = [\<lparr>task_id = 1, task_title = Some ''a'', task_description = None,
                    task_completed = Some False, task_created_at = 5\<rparr>]\<rparr>)"
proof -
  have h: "''title'' \<notin> set (map fst [(''description'', JStr ''no title''), (''completed'', JBool True)])"
    by simp
  from h create_without_title_rejected [OF h] show ?thesis by simp
qed

text \<open>
  C10. The create route reads the members \<open>title\<close> and \<open>description\<close> of the body and no
  other: a body and the body stripped of every other member give the same response and
  the same database. Whenever the body validates, the stored and the returned task
  have \<open>completed = false\<close>, the id the engine assigns and the time of the insert,
  whatever the body says about \<open>completed\<close>, \<open>id\<close> or \<open>created_at\<close>.
\<close>

theorem create_ignores_other_members:
  assumes "TaskCreate_validate (JObj kvs) = Some task"
  shows "route_create_task (JObj kvs) now db
         = route_create_task
             (JObj (filter (\<lambda>kv. fst kv = ''title'' \<or> fst kv = ''description'') kvs)) now db
       \<and> (\<exists>t. route_create_task (JObj kvs) now db
               = (\<lparr>status_code = 200,
                   body = TaskBody \<lparr>response_id = next_rowid (tasks db),
                                    response_title = create_title task,
                                    response_description = create_description task,
                                    response_completed = False,
                                    response_created_at = now\<rparr>\<rparr>,
                  db\<lparr>tasks := tasks db @ [t]\<rparr>)
             \<and> task_completed t = Some False
             \<and> task_id t = next_rowid (tasks db)
             \<and> task_created_at t = now)"
proof -
  let ?P = "\<lambda>k. k = ''title'' \<or> k = ''description''"
  let ?kvs' = "filter (\<lambda>kv. ?P (fst kv)) kvs"
  have t: "dict_get ?kvs' ''title'' = dict_get kvs ''title''"
    by (rule dict_get_filter_keys) simp
  have d: "dict_get ?kvs' ''description'' = dict_get kvs ''description''"
    by (rule dict_get_filter_keys) simp
  have v: "TaskCreate_validate (JObj ?kvs') = TaskCreate_validate (JObj kvs)"
    unfolding TaskCreate_validate_def json.case t d ..
  have first: "route_create_task (JObj kvs) now db = route_create_task (JObj ?kvs') now db"
    by (simp add: route_create_task_def v)
  let ?t = "\<lparr>task_id = next_rowid (tasks db), task_title = Some (create_title task),
             task_description = create_description task, task_completed = Some False,
             task_created_at = now\<rparr>"
  have r: "route_create_task (JObj kvs) now db
               = (\<lparr>status_code = 200,
                   body = TaskBody \<lparr>response_id = next_rowid (tasks db),
                                    response_title = create_title task,
                                    response_description = create_description task,
                                    response_completed = False,
                                    response_created_at = now\<rparr>\<rparr>,
                  db\<lparr>tasks := tasks db @ [?t]\<rparr>)"
    using assms
    by (simp add: route_create_task_def create_task_def Let_def from_attributes_def)
  have second: "\<exists>t. route_create_task (JObj kvs) now db
               = (\<lparr>status_code = 200,
                   body = TaskBody \<lparr>response_id = next_rowid (tasks db),
                                    response_title = create_title task,
                                    response_description = create_description task,
                                    response_completed = False,
                                    response_created_at = now\<rparr>\<rparr>,
                  db\<lparr>tasks := tasks db @ [t]\<rparr>)
             \<and> task_completed t = Some False
             \<and> task_id t = next_rowid (tasks db)
             \<and> task_created_at t = now"
    by (rule exI [of _ ?t]) (simp add: r)
  from first second show ?thesis by (rule conjI)
qed

theorem create_ignores_other_members_witness:
  "TaskCreate_validate (JObj [(''title'', JStr ''Buy milk''), (''completed'', JBool True),
                              (''id'', JNum 99), (''created_at'', JNum 0)])
     = Some \<lparr>create_title = ''Buy milk'', create_description = None\<rparr>
   \<and> route_create_task (JObj [(''title'', JStr ''Buy milk''), (''completed'', JBool True),
                              (''id'', JNum 99), (''created_at'', JNum 0)]) 7 \<lparr>tasks = []\<rparr>
     = (\<lparr>status_code = 200,
         body = TaskBody \<lparr>response_id = 1, response_title = ''Buy milk'',
                          response_description = None, response_completed = False,
                          response_created_at = 7\<rparr>\<rparr>,
        \<lparr>tasks = [\<lparr>task_id = 1, task_title = Some ''Buy milk'', task_description = None,
                    task_completed = Some False, task_created_at = 7\<rparr>]\<rparr>)"
proof -
  let ?kvs = "[(''title'', JStr ''Buy milk''), (''completed'', JBool True),
               (''id'', JNum 99), (''created_at'', JNum 0)]"
  have h: "TaskCreate_validate (JObj ?kvs)
     = Some \<lparr>create_title = ''Buy milk'', create_description = None\<rparr>"
    by (simp add: TaskCreate_validate_def dict_get_def)
  from create_ignores_other_members [OF h, of 7 "\<lparr>tasks = []\<rparr>", THEN conjunct2]
  obtain t where r: "route_create_task (JObj ?kvs) 7 \<lparr>tasks = []\<rparr>
     = (\<lparr>status_code = 200,
         body = TaskBody \<lparr>response_id = 1, response_title = ''Buy milk'',
                          response_description = None, response_completed = False,
                          response_created_at = 7\<rparr>\<rparr>,
        \<lparr>tasks = [t]\<rparr>)"
    by auto
  have "snd (route_create_task (JObj ?kvs) 7 \<lparr>tasks = []\<rparr>)
     = \<lparr>tasks = [\<lparr>task_id = 1, task_title = Some ''Buy milk'', task_description = None,
                    task_completed = Some False, task_created_at = 7\<rparr>]\<rparr>"
    by (simp add: route_create_task_def h create_task_def Let_def)
  with r h show ?thesis by simp
qed

section \<open>Invariants of the stored tasks\<close>

text \<open>
  What holds of the invariants: in every reachable database the ids are pairwise
  distinct (\<open>reachable_distinct_ids\<close>); an update changes no id and no \<open>created_at\<close>
  (\<open>update_task_ids\<close>, \<open>update_task_created_ats\<close>); a delete only drops rows
  (\<open>delete_task_tasks\<close>); a create appends a row with a title and changes no other
  (\<open>create_task_tasks\<close>). A title stays present under every update that leaves the
  title out or supplies a string.
\<close>

lemma create_keeps_titles_present:
  "list_all (\<lambda>t. task_title t \<noteq> None) (tasks db)
   \<Longrightarrow> list_all (\<lambda>t. task_title t \<noteq> None) (tasks (snd (create_task task now db)))"
  by (simp add: create_task_tasks)

lemma delete_keeps_titles_present:
  "list_all (\<lambda>t. task_title t \<noteq> None) (tasks db)
   \<Longrightarrow> list_all (\<lambda>t. task_title t \<noteq> None) (tasks (snd (delete_task tid db)))"
  by (cases "sqlite_integer tid")
     (simp_all add: delete_task_tasks delete_task_out_of_range list_all_iff)

lemma update_keeps_titles_present:
  assumes "list_all (\<lambda>t. task_title t \<noteq> None) (tasks db)"
    and "update_title task \<noteq> Provided None"
  shows "list_all (\<lambda>t. task_title t \<noteq> None) (tasks (snd (update_task tid task db)))"
proof -
  have "task_title (foldl setattr t (dict_exclude_unset task)) \<noteq> None"
    if "task_title t \<noteq> None" for t
    using that assms(2) unfolding update_data_title
    by (cases "update_title task") auto
  with assms(1) show ?thesis
    by (auto simp add: update_task_def Let_def list_all_iff split: sum.splits option.splits)
qed

text \<open>
  C4. The title is not always present. After \<^verbatim>\<open>{"title": "Buy milk"}\<close> is created in the
  empty table, the update of task 1 with the body \<^verbatim>\<open>{"title": null}\<close> supplies the field
  \<open>title\<close> with the value \<open>None\<close>; \<open>dict(exclude_unset=True)\<close> keeps it, the loop
  assigns it and the commit stores a row whose title is NULL. The route then answers
  with status 500, because \<open>TaskResponse\<close> declares \<^verbatim>\<open>title: str\<close>, and so does every
  later listing that contains the row.
\<close>

theorem update_with_null_title_stores_null:
  "update_task 1 \<lparr>update_title = Provided None, update_description = Unset,
                   update_completed = Unset\<rparr>
     (snd (create_task \<lparr>create_title = ''Buy milk'', create_description = None\<rparr> 7
        \<lparr>tasks = []\<rparr>))
   = (ReturnTask \<lparr>task_id = 1, task_title = None, task_description = None,
                   task_completed = Some False, task_created_at = 7\<rparr>,
      \<lparr>tasks = [\<lparr>task_id = 1, task_title = None, task_description = None,
                  task_completed = Some False, task_created_at = 7\<rparr>]\<rparr>)"
  by (simp add: update_task_def create_task_def Let_def query_first_def sqlite_integer_def
        dict_exclude_unset_def)

lemma null_title_database_reachable:
  "reachable \<lparr>tasks = [\<lparr>task_id = 1, task_title = None, task_description = None,
                         task_completed = Some False, task_created_at = 7\<rparr>]\<rparr>"
proof -
  have "reachable (snd (update_task 1 \<lparr>update_title = Provided None, update_description = Unset,
                   update_completed = Unset\<rparr>
     (snd (create_task \<lparr>create_title = ''Buy milk'', create_description = None\<rparr> 7
        \<lparr>tasks = []\<rparr>))))"
    by (intro reachable.update reachable.create reachable.initial)
  then show ?thesis
    by (simp add: update_task_def create_task_def Let_def query_first_def sqlite_integer_def
          dict_exclude_unset_def)
qed

lemma null_title_routes_fail:
  "fst (route_update_task 1 \<lparr>update_title = Provided None, update_description = Unset,
                              update_completed = Unset\<rparr>
     \<lparr>tasks = [\<lparr>task_id = 1, task_title = Some ''Buy milk'', task_description = None,
                 task_completed = Some False, task_created_at = 7\<rparr>]\<rparr>)
   = \<lparr>status_code = 500, body = InternalServerError\<rparr>
   \<and> route_get_tasks None None
       \<lparr>tasks = [\<lparr>task_id = 1, task_title = None, task_description = None,
                   task_completed = Some False, task_created_at = 7\<rparr>]\<rparr>
     = \<lparr>status_code = 500, body = InternalServerError\<rparr>"
  by (simp add: route_update_task_def update_task_def Let_def query_first_def
        sqlite_integer_def dict_exclude_unset_def from_attributes_def route_get_tasks_def
        get_tasks_def sql_limit_def sql_offset_def)

end
